theory Spec2Isabelle
  imports Main "HOL-Library.AList" "HOL-Library.Stream"
begin

section \<open>Exceptions and values shared by the examples\<close>

text \<open>
  The source is a sequence of independent Python examples.  Every \<^verbatim>\<open>raise\<close> becomes a
  value of the type \<open>exn\<close>; a function that may raise returns \<open>exn + 'a\<close>, with \<open>Inl\<close>
  for the exception.  The exceptions that \<^verbatim>\<open>jwt.decode\<close> raises are kept in a type of
  their own: the classes of the package that \<^verbatim>\<open>import jwt\<close> loads (PyJWT), with
  \<open>InvalidTokenError\<close> for every class of it that is not listed.  The package has no
  class \<^verbatim>\<open>JWTError\<close>.
\<close>

datatype jwt_exception =
    ExpiredSignatureError
  | DecodeError
  | InvalidAlgorithmError
  | InvalidSignatureError
  | InvalidTokenError

datatype exn =
    HTTPException int string
  | MyCustomError string
  | KeyError string
  | EOFError
  | RuntimeError string
  | AttributeError string
  | JWT jwt_exception

section \<open>The custom exception example\<close>

text \<open>
  \<^verbatim>\<open>
  def check_value(x):
      if x < 0:
          raise MyCustomError("Negative value not allowed!")
  \<close>
  The function has no \<^verbatim>\<open>return\<close>: on the other branch it returns \<^verbatim>\<open>None\<close>, modelled
  as the unit value.
\<close>

definition check_value :: "int \<Rightarrow> exn + unit" where
  "check_value x =
     (if x < 0 then Inl (MyCustomError ''Negative value not allowed!'') else Inr ())"

section \<open>Dictionaries\<close>

text \<open>
  A Python \<^verbatim>\<open>dict\<close> is an association list with distinct keys, in insertion order.
  \<^verbatim>\<open>d.get(k)\<close> is \<open>map_of d k\<close>, \<^verbatim>\<open>d[k]\<close> raises \<^verbatim>\<open>KeyError\<close> on a missing key,
  \<^verbatim>\<open>d.update({k: v})\<close> is \<open>AList.update k v d\<close> (the value is replaced in place, or
  the pair is appended).  \<^verbatim>\<open>not user\<close>, for \<^verbatim>\<open>user\<close> the result of \<^verbatim>\<open>dict.get\<close>, holds
  when \<^verbatim>\<open>user\<close> is \<^verbatim>\<open>None\<close> or the empty dict: the two first branches wherever it occurs.
\<close>

type_synonym 'v dict = "(string \<times> 'v) list"

definition keys :: "'v dict \<Rightarrow> string list" where
  "keys d = map fst d"

definition getitem :: "'v dict \<Rightarrow> string \<Rightarrow> exn + 'v" where
  "getitem d k = (case map_of d k of None \<Rightarrow> Inl (KeyError k) | Some v \<Rightarrow> Inr v)"

section \<open>JWT authentication\<close>

text \<open>
  The \<^verbatim>\<open>jwt\<close> module is third-party code and is a parameter of the model: a record of
  its two functions.  \<^verbatim>\<open>jwt.encode(payload, key, algorithm)\<close> returns the token;
  \<^verbatim>\<open>jwt.decode(token, key, algorithms)\<close> reads the clock, so the model passes it the
  current time, and it returns the payload or raises one of the module's exceptions.
  Times are integers (microseconds, the resolution of \<^verbatim>\<open>datetime\<close>); the upper limit of
  \<^verbatim>\<open>datetime\<close> (year 9999) is not modelled.

  Values stored in a payload to encode are Python values (\<open>pyval\<close>); a decoded payload
  holds what JSON can hold (\<open>json_value\<close>).  A value of another type is carried by a text:
  for \<open>JOther\<close> the text that \<^verbatim>\<open>str()\<close> gives.  \<open>py_str\<close> is \<^verbatim>\<open>str()\<close>, which the
  f-string of \<open>read_protected\<close> applies.
\<close>

datatype pyval = PyNone | PyStr string | PyDatetime int | PyObj string

datatype json_value = JNull | JStr string | JInt int | JOther string

fun show_nat :: "nat \<Rightarrow> string" where
  "show_nat n =
     (if n < 10 then [char_of (48 + n)]
      else show_nat (n div 10) @ [char_of (48 + n mod 10)])"

definition show_int :: "int \<Rightarrow> string" where
  "show_int i = (if i < 0 then CHR ''-'' # show_nat (nat (- i)) else show_nat (nat i))"

fun py_str :: "json_value \<Rightarrow> string" where
  "py_str JNull = ''None''"
| "py_str (JStr s) = s"
| "py_str (JInt i) = show_int i"
| "py_str (JOther r) = r"

record jwt_module =
  encode :: "pyval dict \<Rightarrow> string \<Rightarrow> string \<Rightarrow> string"
  decode :: "string \<Rightarrow> string \<Rightarrow> string list \<Rightarrow> int \<Rightarrow> jwt_exception + json_value dict"

definition SECRET_KEY :: string where
  "SECRET_KEY = ''mysecretkey''"

text \<open>\<^verbatim>\<open>timedelta(minutes=m)\<close>, in microseconds.\<close>

definition timedelta_minutes :: "int \<Rightarrow> int" where
  "timedelta_minutes m = m * 60 * 1000000"

text \<open>
  \<^verbatim>\<open>
  def create_jwt_token(data: dict, expires_delta: timedelta):
      to_encode = data.copy()
      expire = datetime.utcnow() + expires_delta
      to_encode.update({"exp": expire})
      encoded_jwt = jwt.encode(to_encode, SECRET_KEY, algorithm="HS256")
      return encoded_jwt
  \<close>
  Here a dict is a value, so the copy is the same list; the version on a store of
  mutable dicts is \<open>create_jwt_token_store\<close> below.  \<open>utcnow\<close> is what
  \<^verbatim>\<open>datetime.utcnow()\<close> returns.
\<close>

definition create_jwt_token :: "jwt_module \<Rightarrow> int \<Rightarrow> pyval dict \<Rightarrow> int \<Rightarrow> string" where
  "create_jwt_token jwt utcnow data expires_delta =
     (let to_encode = data;
          expire = utcnow + expires_delta;
          to_encode = AList.update ''exp'' (PyDatetime expire) to_encode;
          encoded_jwt = encode jwt to_encode SECRET_KEY ''HS256''
      in encoded_jwt)"

text \<open>The mock user database of the JWT example (lines 468-473).\<close>

definition fake_users_db_jwt :: "string dict dict" where
  "fake_users_db_jwt =
     [(''admin'', [(''username'', ''admin''), (''password'', ''secret'')])]"

text \<open>
  \<^verbatim>\<open>
  def login_for_access_token(username: str, password: str):
      user = fake_users_db.get(username)
      if not user or user["password"] != password:
          raise HTTPException(status_code=400, detail="Invalid credentials")
      access_token_expires = timedelta(minutes=30)
      access_token = create_jwt_token(data={"sub": username}, expires_delta=access_token_expires)
      return {"access_token": access_token, "token_type": "bearer"}
  \<close>
\<close>

definition login_for_access_token ::
  "jwt_module \<Rightarrow> int \<Rightarrow> string \<Rightarrow> string \<Rightarrow> exn + string dict" where
  "login_for_access_token jwt utcnow username password =
     (case map_of fake_users_db_jwt username of
        None \<Rightarrow> Inl (HTTPException 400 ''Invalid credentials'')
      | Some user \<Rightarrow>
          if user = [] then Inl (HTTPException 400 ''Invalid credentials'')
          else
            (case getitem user ''password'' of
               Inl e \<Rightarrow> Inl e
             | Inr stored \<Rightarrow>
                 if stored \<noteq> password then Inl (HTTPException 400 ''Invalid credentials'')
                 else
                   (let access_token_expires = timedelta_minutes 30;
                        access_token =
                          create_jwt_token jwt utcnow [(''sub'', PyStr username)]
                            access_token_expires
                    in Inr [(''access_token'', access_token), (''token_type'', ''bearer'')])))"

text \<open>
  \<^verbatim>\<open>
  def read_protected(token: str = Depends(oauth2_scheme)):
      try:
          payload = jwt.decode(token, SECRET_KEY, algorithms=["HS256"])
          username = payload.get("sub")
          if username is None:
              raise HTTPException(status_code=401, detail="Invalid token")
          return {"message": f"Hello {username}, you're authenticated!"}
      except jwt.ExpiredSignatureError:
          raise HTTPException(status_code=401, detail="Token has expired")
      except jwt.JWTError:
          raise HTTPException(status_code=401, detail="Invalid token")
  \<close>
  \<open>read_protected_try\<close> is the body of the \<^verbatim>\<open>try\<close>, and \<open>now\<close> is the clock that
  \<^verbatim>\<open>jwt.decode\<close> reads.  \<open>read_protected\<close> goes through the handlers in their order
  when the body raised.  The first matches \<open>ExpiredSignatureError\<close>.  For every other
  exception, the \<open>HTTPException\<close> of the body among them, Python evaluates the class
  expression of the second handler, \<^verbatim>\<open>jwt.JWTError\<close>: the module that line 442 imports
  has no such attribute, so this raises \<^verbatim>\<open>AttributeError\<close>, which leaves the function,
  and the \<^verbatim>\<open>raise\<close> of the second handler is never reached.
\<close>

definition greeting :: "json_value \<Rightarrow> string dict" where
  "greeting username = [(''message'', ''Hello '' @ py_str username @ '', you're authenticated!'')]"

definition read_protected_try :: "jwt_module \<Rightarrow> int \<Rightarrow> string \<Rightarrow> exn + string dict" where
  "read_protected_try jwt now token =
     (case decode jwt token SECRET_KEY [''HS256''] now of
        Inl e \<Rightarrow> Inl (JWT e)
      | Inr payload \<Rightarrow>
          (let username = (case map_of payload ''sub'' of None \<Rightarrow> JNull | Some v \<Rightarrow> v) in
           if username = JNull then Inl (HTTPException 401 ''Invalid token'')
           else Inr (greeting username)))"

definition read_protected :: "jwt_module \<Rightarrow> int \<Rightarrow> string \<Rightarrow> exn + string dict" where
  "read_protected jwt now token =
     (case read_protected_try jwt now token of
        Inr r \<Rightarrow> Inr r
      | Inl (JWT ExpiredSignatureError) \<Rightarrow> Inl (HTTPException 401 ''Token has expired'')
      | Inl e \<Rightarrow> Inl (AttributeError ''JWTError''))"

text \<open>
  The same function on a store of mutable dicts: a dict variable holds an address (an index
  into the store), \<^verbatim>\<open>data.copy()\<close> allocates a new dict with the same items, and
  \<^verbatim>\<open>to_encode.update(...)\<close> writes to the store at the address that \<^verbatim>\<open>to_encode\<close>
  holds.  The function returns the token and the store it leaves.  \<^verbatim>\<open>jwt.encode\<close> is
  taken not to write to its argument.
\<close>

definition create_jwt_token_store ::
  "jwt_module \<Rightarrow> int \<Rightarrow> pyval dict list \<Rightarrow> nat \<Rightarrow> int \<Rightarrow> string \<times> pyval dict list" where
  "create_jwt_token_store jwt utcnow store data expires_delta =
     (let to_encode = length store;
          store = store @ [store ! data];
          expire = utcnow + expires_delta;
          store = store[to_encode := AList.update ''exp'' (PyDatetime expire) (store ! to_encode)];
          encoded_jwt = encode jwt (store ! to_encode) SECRET_KEY ''HS256''
      in (encoded_jwt, store))"

section \<open>Role-based authorization\<close>

text \<open>The mock user database of the role example (lines 520-523).\<close>

definition fake_users_db_roles :: "string dict dict" where
  "fake_users_db_roles =
     [(''admin'', [(''username'', ''admin''), (''password'', ''admin''), (''role'', ''admin'')]),
      (''user'', [(''username'', ''user''), (''password'', ''user''), (''role'', ''user'')])]"

text \<open>
  \<^verbatim>\<open>
  def get_current_user(username: str):
      user = fake_users_db.get(username)
      if not user:
          raise HTTPException(status_code=400, detail="Invalid credentials")
      return user
  \<close>
\<close>

definition get_current_user :: "string \<Rightarrow> exn + string dict" where
  "get_current_user username =
     (case map_of fake_users_db_roles username of
        None \<Rightarrow> Inl (HTTPException 400 ''Invalid credentials'')
      | Some user \<Rightarrow>
          if user = [] then Inl (HTTPException 400 ''Invalid credentials'') else Inr user)"

text \<open>
  \<^verbatim>\<open>
  def check_role(required_role: str):
      def role_dependency(user: dict = Depends(get_current_user)):
          if user["role"] != required_role:
              raise HTTPException(status_code=403, detail="You do not have permission to access this resource")
          return user
      return role_dependency
  \<close>
  \<open>check_role required_role\<close> is the closure \<^verbatim>\<open>role_dependency\<close>.
\<close>

definition check_role :: "string \<Rightarrow> string dict \<Rightarrow> exn + string dict" where
  "check_role required_role user =
     (case getitem user ''role'' of
        Inl e \<Rightarrow> Inl e
      | Inr role \<Rightarrow>
          if role \<noteq> required_role
          then Inl (HTTPException 403 ''You do not have permission to access this resource'')
          else Inr user)"

section \<open>The root route and its test\<close>





section \<open>The placeholder data model\<close>

text \<open>
  A Pydantic model class is the list of its fields: name, annotated type, and whether the
  field has the default \<^verbatim>\<open>None\<close>.
  \<^verbatim>\<open>
  class Item(BaseModel):
      name: str
      description: str = None
      price: float
      tax: float = None

  class Token(BaseModel):
      access_token: str
      token_type: str
  \<close>
\<close>

datatype py_type = Str | Float

record model_field =
  field_name :: string
  annotation :: py_type
  default_None :: bool

definition Item :: "model_field list" where
  "Item =
     [\<lparr>field_name = ''name'', annotation = Str, default_None = False\<rparr>,
      \<lparr>field_name = ''description'', annotation = Str, default_None = True\<rparr>,
      \<lparr>field_name = ''price'', annotation = Float, default_None = False\<rparr>,
      \<lparr>field_name = ''tax'', annotation = Float, default_None = True\<rparr>]"

definition Token :: "model_field list" where
  "Token =
     [\<lparr>field_name = ''access_token'', annotation = Str, default_None = False\<rparr>,
      \<lparr>field_name = ''token_type'', annotation = Str, default_None = False\<rparr>]"

text \<open>
  The mock user databases of the basic-authentication example (lines 338-343) and of the
  OAuth2 example (lines 389-395); those of the JWT and of the role example are above.
\<close>

definition fake_users_db_basic :: "string dict dict" where
  "fake_users_db_basic =
     [(''admin'', [(''username'', ''admin''), (''password'', ''secret'')])]"

definition fake_users_db_oauth2 :: "string dict dict" where
  "fake_users_db_oauth2 =
     [(''user1'', [(''username'', ''user1''), (''password'', ''password123''),
                   (''full_name'', ''John Doe'')])]"

text \<open>The field names of every user record of a database, in order.\<close>

definition user_fields :: "string dict dict \<Rightarrow> string list list" where
  "user_fields db = map (keys \<circ> snd) db"

section \<open>The database session dependency\<close>

text \<open>
  \<^verbatim>\<open>
  def get_db():
      db = connect_to_database()
      try:
          yield db
      finally:
          db.close()
  \<close>
  \<open>get_db\<close> is a generator.  When it is first resumed it runs to the \<^verbatim>\<open>yield\<close> and
  is suspended there (\<open>get_db_start\<close>).  From there it is resumed either by \<^verbatim>\<open>next\<close>
  (the user of the session completed) or by \<^verbatim>\<open>throw\<close> (the user raised); both leave the
  \<^verbatim>\<open>try\<close>, so both run the \<^verbatim>\<open>finally\<close>, and the generator is finished.

  The session is a mutable object: \<open>'db\<close> is its state.  \<^verbatim>\<open>connect_to_database\<close> and
  \<^verbatim>\<open>db.close\<close> are not in the source and are parameters: the first gives the new
  session or raises, the second changes the session and may raise.  The two resumptions
  take the state in which the user left the session and return the state in which
  \<^verbatim>\<open>db.close()\<close> leaves it.
\<close>

datatype 'db answer = Yielded 'db | StopIteration | Raised exn

definition get_db_start :: "exn + 'db \<Rightarrow> 'db answer" where
  "get_db_start connect_to_database =
     (case connect_to_database of Inl e \<Rightarrow> Raised e | Inr db \<Rightarrow> Yielded db)"

definition get_db_next :: "('db \<Rightarrow> exn option \<times> 'db) \<Rightarrow> 'db \<Rightarrow> 'db answer \<times> 'db" where
  "get_db_next close db =
     (case close db of
        (Some e, db') \<Rightarrow> (Raised e, db')
      | (None, db') \<Rightarrow> (StopIteration, db'))"

definition get_db_throw ::
  "('db \<Rightarrow> exn option \<times> 'db) \<Rightarrow> exn \<Rightarrow> 'db \<Rightarrow> 'db answer \<times> 'db" where
  "get_db_throw close exc db =
     (case close db of
        (Some e, db') \<Rightarrow> (Raised e, db')
      | (None, db') \<Rightarrow> (Raised exc, db'))"

text \<open>
  An execution of \<open>get_db\<close>, as \<^verbatim>\<open>Depends(get_db)\<close> drives it: the generator is started
  to obtain the session, the body that uses the session runs (it returns or raises, and
  leaves the session in some state), and the generator is resumed by \<^verbatim>\<open>next\<close> when the
  body returned and by \<^verbatim>\<open>throw\<close> when it raised.  The result is the outcome and the last
  state of the session, if there was one.
\<close>

definition use_get_db ::
  "exn + 'db \<Rightarrow> ('db \<Rightarrow> exn option \<times> 'db) \<Rightarrow> ('db \<Rightarrow> (exn + 'r) \<times> 'db)
     \<Rightarrow> (exn + 'r) \<times> 'db option" where
  "use_get_db connect_to_database close body =
     (case get_db_start connect_to_database of
        Yielded db \<Rightarrow>
          (case body db of
             (Inr r, db1) \<Rightarrow>
               (case get_db_next close db1 of
                  (Raised e, db2) \<Rightarrow> (Inl e, Some db2)
                | (_, db2) \<Rightarrow> (Inr r, Some db2))
           | (Inl exc, db1) \<Rightarrow>
               (case get_db_throw close exc db1 of
                  (Raised e, db2) \<Rightarrow> (Inl e, Some db2)
                | (_, db2) \<Rightarrow> (Inl exc, Some db2)))
      | Raised e \<Rightarrow> (Inl e, None)
      | StopIteration \<Rightarrow> (Inl (RuntimeError ''generator didn't yield''), None))"

text \<open>
  A session that counts the calls of its \<^verbatim>\<open>close\<close>, which returns normally.
\<close>

definition counting_close :: "nat \<Rightarrow> exn option \<times> nat" where
  "counting_close calls = (None, Suc calls)"

section \<open>The retry-until-success input loop\<close>

text \<open>
  \<^verbatim>\<open>int(s)\<close> at base 10 on ASCII text: surrounding white space (the space and the
  characters 9 to 13) is dropped, one sign is allowed, and the digits may be separated by
  single underscores.  \<open>None\<close> stands for \<^verbatim>\<open>ValueError\<close>.  Digits and spaces outside
  ASCII and the limit on the number of digits are not modelled.
\<close>

definition is_space :: "char \<Rightarrow> bool" where
  "is_space c \<longleftrightarrow> (let n = (of_char c :: nat) in (9 \<le> n \<and> n \<le> 13) \<or> n = 32)"

definition is_digit :: "char \<Rightarrow> bool" where
  "is_digit c \<longleftrightarrow> (let n = (of_char c :: nat) in 48 \<le> n \<and> n \<le> 57)"

definition digit_value :: "char \<Rightarrow> nat" where
  "digit_value c = of_char c - 48"

fun digits :: "nat \<Rightarrow> string \<Rightarrow> nat option" where
  "digits acc [] = Some acc"
| "digits acc [c] = (if is_digit c then Some (10 * acc + digit_value c) else None)"
| "digits acc (c # d # cs) =
     (if is_digit c then digits (10 * acc + digit_value c) (d # cs)
      else if c = CHR ''_'' \<and> is_digit d then digits (10 * acc + digit_value d) cs
      else None)"

definition unsigned :: "string \<Rightarrow> nat option" where
  "unsigned s = (case s of [] \<Rightarrow> None | c # cs \<Rightarrow> if is_digit c then digits 0 s else None)"

definition strip :: "string \<Rightarrow> string" where
  "strip s = rev (dropWhile is_space (rev (dropWhile is_space s)))"

definition py_int :: "string \<Rightarrow> int option" where
  "py_int s =
     (case strip s of
        [] \<Rightarrow> None
      | c # cs \<Rightarrow>
          if c = CHR ''-'' then map_option (\<lambda>n. - int n) (unsigned cs)
          else if c = CHR ''+'' then map_option int (unsigned cs)
          else map_option int (unsigned (c # cs)))"

text \<open>
  \<^verbatim>\<open>
  while True:
      try:
          num = int(input("Enter a number: "))
          break  # success!
      except ValueError:
          print("Invalid input. Please try again.")
  \<close>
  The user's input is a stream: each call of \<^verbatim>\<open>input\<close> takes its head, a line, or finds
  the input at its end (\<open>None\<close>) and raises \<^verbatim>\<open>EOFError\<close>, which no handler of the loop
  catches.  \<open>out\<close> collects what is written: the prompt of every \<^verbatim>\<open>input\<close> and the
  messages.  The loop may run forever, so it is a partial function: \<open>None\<close> is "does not
  return", \<open>Some\<close> carries how the loop was left (the number after \<^verbatim>\<open>break\<close>, or the
  exception) and the output.  The conversion is a parameter; \<open>py_int\<close> is the one of the
  source.
\<close>

definition prompt :: string where
  "prompt = ''Enter a number: ''"

definition invalid_input :: string where
  "invalid_input = ''Invalid input. Please try again.''"

partial_function (option) retry_loop ::
  "(string \<Rightarrow> int option) \<Rightarrow> string option stream \<Rightarrow> string list
     \<Rightarrow> ((exn + int) \<times> string list) option" where
  "retry_loop to_int inputs out =
     (case shd inputs of
        None \<Rightarrow> Some (Inl EOFError, out @ [prompt])
      | Some line \<Rightarrow>
          (case to_int line of
             Some num \<Rightarrow> Some (Inr num, out @ [prompt])
           | None \<Rightarrow> retry_loop to_int (stl inputs) (out @ [prompt, invalid_input])))"

text \<open>The input that consists of the given lines and then ends.\<close>

definition typed :: "string list \<Rightarrow> string option stream" where
  "typed lines = map Some lines @- sconst None"

text \<open>
  A line is rejected when the conversion raises \<^verbatim>\<open>ValueError\<close> on it; the end of the
  input is not a rejected line.  \<open>retries k\<close> is what \<open>k\<close> failed rounds write.
\<close>

definition rejected :: "(string \<Rightarrow> int option) \<Rightarrow> string option \<Rightarrow> bool" where
  "rejected to_int x = (case x of None \<Rightarrow> False | Some line \<Rightarrow> to_int line = None)"

definition retries :: "nat \<Rightarrow> string list" where
  "retries k = concat (replicate k [prompt, invalid_input])"

section \<open>The jwt module\<close>

text \<open>
  Modelled from the spec: the \<^verbatim>\<open>jwt\<close> module that line 442 imports, which is absent
  from the source.  The spec's words are "a signed, three-part token format used to
  assert claims between parties": the token of \<open>plain_jwt\<close> has three parts, each made
  of length-prefixed fields: the algorithm, the claims (expiry time and subject), and in
  place of a signature the key itself.  Only payloads with a string subject and an expiry
  time are encoded.  What the spec does not say follows the imported package:
  \<^verbatim>\<open>encode\<close> stores the expiry time in whole seconds since the epoch;
  \<^verbatim>\<open>decode\<close> raises \<open>DecodeError\<close> on a token that is not well formed,
  \<open>InvalidAlgorithmError\<close> when the token's algorithm is not among the allowed ones,
  \<open>InvalidSignatureError\<close> when the signature is not the key's, and
  \<open>ExpiredSignatureError\<close> when the stored expiry time is not after the clock
  (\<^verbatim>\<open>exp <= now\<close>); otherwise it returns the claims, the expiry time as an integer.
\<close>

definition field :: "string \<Rightarrow> string" where
  "field x = replicate (length x) CHR ''1'' @ CHR ''.'' # x"

definition take_field :: "string \<Rightarrow> string \<times> string" where
  "take_field t =
     (let n = length (takeWhile (\<lambda>c. c = CHR ''1'') t); rest = drop (Suc n) t
      in (take n rest, drop n rest))"

definition show_time :: "int \<Rightarrow> string" where
  "show_time e = (if e < 0 then CHR ''-'' else CHR ''+'') # replicate (nat \<bar>e\<bar>) CHR ''1''"

definition read_time :: "string \<Rightarrow> int" where
  "read_time s =
     (case s of [] \<Rightarrow> 0 | c # ds \<Rightarrow> if c = CHR ''-'' then - int (length ds) else int (length ds))"

text \<open>The whole seconds of a time in microseconds, as \<^verbatim>\<open>timegm(t.utctimetuple())\<close>.\<close>

definition whole_seconds :: "int \<Rightarrow> int" where
  "whole_seconds t = t div 1000000"

definition plain_encode :: "pyval dict \<Rightarrow> string \<Rightarrow> string \<Rightarrow> string" where
  "plain_encode claims key alg =
     (case (map_of claims ''sub'', map_of claims ''exp'') of
        (Some (PyStr s), Some (PyDatetime e)) \<Rightarrow>
          field alg @ field (show_time (whole_seconds e)) @ field s @ field key
      | _ \<Rightarrow> [])"

definition plain_decode ::
  "string \<Rightarrow> string \<Rightarrow> string list \<Rightarrow> int \<Rightarrow> jwt_exception + json_value dict" where
  "plain_decode token key algorithms now =
     (let (alg, t1) = take_field token;
          (exp, t2) = take_field t1;
          (sub, t3) = take_field t2;
          (sig, t4) = take_field t3
      in if token \<noteq> field alg @ field exp @ field sub @ field sig then Inl DecodeError
         else if alg \<notin> set algorithms then Inl InvalidAlgorithmError
         else if sig \<noteq> key then Inl InvalidSignatureError
         else if read_time exp * 1000000 \<le> now then Inl ExpiredSignatureError
         else Inr [(''sub'', JStr sub), (''exp'', JInt (read_time exp))])"

definition plain_jwt :: jwt_module where
  "plain_jwt = \<lparr>encode = plain_encode, decode = plain_decode\<rparr>"

section \<open>Lemmas\<close>

subsection \<open>The input loop\<close>

lemma retries_Suc: "[prompt, invalid_input] @ retries k = retries (Suc k)"
  by (simp add: retries_def)

text \<open>Rounds on rejected lines only write, and leave the loop where it was.\<close>

lemma retry_loop_skip:
  "(\<And>i. i < k \<Longrightarrow> rejected to_int (inputs !! i)) \<Longrightarrow>
   retry_loop to_int inputs out = retry_loop to_int (sdrop k inputs) (out @ retries k)"
proof (induction k arbitrary: inputs out)
  case 0
  then show ?case by (simp add: retries_def)
next
  case (Suc k)
  from Suc.prems [of 0] have hd: "rejected to_int (shd inputs)" by simp
  have tl: "\<And>i. i < k \<Longrightarrow> rejected to_int (stl inputs !! i)"
    using Suc.prems [of "Suc _"] by simp
  have "retry_loop to_int inputs out =
        retry_loop to_int (stl inputs) (out @ [prompt, invalid_input])"
    using hd by (subst retry_loop.simps) (simp add: rejected_def split: option.splits)
  also have "\<dots> =
        retry_loop to_int (sdrop k (stl inputs)) ((out @ [prompt, invalid_input]) @ retries k)"
    by (rule Suc.IH) (rule tl)
  finally show ?case using retries_Suc [of k] by (simp del: replicate.simps)
qed

text \<open>A loop that returns has met a line that is not rejected, or the end of the input.\<close>

lemma retry_loop_returns:
  assumes "retry_loop to_int inputs out = Some r"
  shows "\<exists>i. \<not> rejected to_int (inputs !! i)"
proof (rule retry_loop.raw_induct
    [where P = "\<lambda>to_int inputs out r. \<exists>i. \<not> rejected to_int (inputs !! i)", OF _ assms])
  fix loop :: "(string \<Rightarrow> int option) \<Rightarrow> string option stream \<Rightarrow> string list
      \<Rightarrow> ((exn + int) \<times> string list) option"
  fix to_int inputs out r
  assume IH: "\<And>f s ou y. loop f s ou = Some y \<Longrightarrow> \<exists>i. \<not> rejected f (s !! i)"
  assume step: "(case shd inputs of
        None \<Rightarrow> Some (Inl EOFError, out @ [prompt])
      | Some line \<Rightarrow>
          (case to_int line of
             None \<Rightarrow> loop to_int (stl inputs) (out @ [prompt, invalid_input])
           | Some num \<Rightarrow> Some (Inr num, out @ [prompt]))) = Some r"
  show "\<exists>i. \<not> rejected to_int (inputs !! i)"
  proof (cases "rejected to_int (shd inputs)")
    case True
    then have "loop to_int (stl inputs) (out @ [prompt, invalid_input]) = Some r"
      using step by (simp add: rejected_def split: option.splits)
    then obtain i where "\<not> rejected to_int (stl inputs !! i)"
      using IH by blast
    then have "\<not> rejected to_int (inputs !! Suc i)" by simp
    then show ?thesis by blast
  next
    case False
    then have "\<not> rejected to_int (inputs !! 0)" by simp
    then show ?thesis by blast
  qed
qed

lemma retry_loop_forever:
  "(\<And>i. rejected to_int (inputs !! i)) \<Longrightarrow> retry_loop to_int inputs out = None"
  using retry_loop_returns [of to_int inputs out]
  by (cases "retry_loop to_int inputs out") auto

lemma retry_loop_break:
  assumes "\<And>i. i < k \<Longrightarrow> rejected to_int (inputs !! i)"
    and "inputs !! k = Some line" and "to_int line = Some num"
  shows "retry_loop to_int inputs [] = Some (Inr num, retries k @ [prompt])"
proof -
  have "retry_loop to_int inputs [] = retry_loop to_int (sdrop k inputs) ([] @ retries k)"
    using assms(1) by (rule retry_loop_skip)
  also have "\<dots> = Some (Inr num, retries k @ [prompt])"
    using assms(2,3) by (subst retry_loop.simps) (simp add: sdrop_snth)
  finally show ?thesis .
qed

lemma retry_loop_eof:
  assumes "\<And>i. i < k \<Longrightarrow> rejected to_int (inputs !! i)"
    and "inputs !! k = None"
  shows "retry_loop to_int inputs [] = Some (Inl EOFError, retries k @ [prompt])"
proof -
  have "retry_loop to_int inputs [] = retry_loop to_int (sdrop k inputs) ([] @ retries k)"
    using assms(1) by (rule retry_loop_skip)
  also have "\<dots> = Some (Inl EOFError, retries k @ [prompt])"
    using assms(2) by (subst retry_loop.simps) (simp add: sdrop_snth)
  finally show ?thesis .
qed

lemma py_int_abc: "py_int ''abc'' = None"
  by code_simp

lemma py_int_42: "py_int '' 42 '' = Some 42"
  by code_simp

lemma py_int_4_2: "py_int ''4 2'' = None"
  by code_simp

subsection \<open>The jwt module\<close>




lemma take_field_abc: "take_field ''abc'' = ([], ''bc'')"
  by (simp add: take_field_def)

lemma take_field_bc: "take_field ''bc'' = ([], ''c'')"
  by (simp add: take_field_def)

lemma take_field_c: "take_field ''c'' = ([], [])"
  by (simp add: take_field_def)

lemma take_field_Nil: "take_field [] = ([], [])"
  by (simp add: take_field_def)

lemma plain_decode_abc: "plain_decode ''abc'' key algorithms now = Inl DecodeError"
  unfolding plain_decode_def
  by (simp only: take_field_abc take_field_bc take_field_c take_field_Nil Let_def prod.case)
    (simp add: field_def)


section \<open>Properties\<close>

text \<open>
  C1.  For every username and password (and whatever the jwt module and the clock are),
  \<open>login_for_access_token\<close> returns an access token with token type "bearer" if and
  only if the username is a key of the mock database and the password stored under it
  equals the supplied one; in every other case it raises \<open>HTTPException\<close> with status
  400 and detail "Invalid credentials", and returns no token.  The token is the one that
  \<open>create_jwt_token\<close> makes for the subject, with thirty minutes to live.
\<close>

theorem login_for_access_token_iff_credentials:
  "login_for_access_token jwt utcnow username password =
     (if \<exists>user. map_of fake_users_db_jwt username = Some user
                \<and> map_of user ''password'' = Some password
      then Inr [(''access_token'',
                 create_jwt_token jwt utcnow [(''sub'', PyStr username)] (timedelta_minutes 30)),
                (''token_type'', ''bearer'')]
      else Inl (HTTPException 400 ''Invalid credentials''))
   \<and> ((\<exists>token. login_for_access_token jwt utcnow username password =
                  Inr [(''access_token'', token), (''token_type'', ''bearer'')])
        \<longleftrightarrow> (\<exists>user. map_of fake_users_db_jwt username = Some user
                     \<and> map_of user ''password'' = Some password))
   \<and> ((login_for_access_token jwt utcnow username password =
          Inl (HTTPException 400 ''Invalid credentials''))
        \<longleftrightarrow> \<not> (\<exists>user. map_of fake_users_db_jwt username = Some user
                       \<and> map_of user ''password'' = Some password))"
  by (simp add: login_for_access_token_def fake_users_db_jwt_def getitem_def)



text \<open>
  C3.  For every required role and every user record that \<open>get_current_user\<close> returns,
  the dependency \<open>check_role required_role\<close> raises \<open>HTTPException\<close> with status 403
  and detail "You do not have permission to access this resource" if and only if the
  record's "role" differs from the required role, and otherwise returns the record
  unchanged.
\<close>

theorem check_role_forbidden_iff_role_differs:
  "get_current_user username = Inr user \<Longrightarrow>
     (check_role required_role user =
        Inl (HTTPException 403 ''You do not have permission to access this resource'')
      \<longleftrightarrow> map_of user ''role'' \<noteq> Some required_role)
     \<and> (check_role required_role user = Inr user
        \<longleftrightarrow> map_of user ''role'' = Some required_role)"
  by (auto simp add: get_current_user_def fake_users_db_roles_def check_role_def getitem_def
      split: if_splits)

theorem check_role_forbidden_iff_role_differs_witness:
  "get_current_user ''user'' =
     Inr [(''username'', ''user''), (''password'', ''user''), (''role'', ''user'')]
   \<and> check_role ''admin'' [(''username'', ''user''), (''password'', ''user''), (''role'', ''user'')] =
       Inl (HTTPException 403 ''You do not have permission to access this resource'')
   \<and> check_role ''user'' [(''username'', ''user''), (''password'', ''user''), (''role'', ''user'')] =
       Inr [(''username'', ''user''), (''password'', ''user''), (''role'', ''user'')]"
proof -
  let ?user = "[(''username'', ''user''), (''password'', ''user''), (''role'', ''user'')]"
  have u: "get_current_user ''user'' = Inr ?user"
    by (simp add: get_current_user_def fake_users_db_roles_def)
  show ?thesis
    using u check_role_forbidden_iff_role_differs [OF u, of "''admin''"]
      check_role_forbidden_iff_role_differs [OF u, of "''user''"]
    by simp
qed


text \<open>
  C5, as amended.  Let the first \<open>k\<close> lines of the input be rejected by the conversion.
  If the next line converts to \<open>num\<close>, the loop is left by \<^verbatim>\<open>break\<close> there with \<open>num\<close>,
  having written "Invalid input. Please try again." once for each of the \<open>k\<close> earlier
  lines (after the prompt of each round).  If every line of an endless input is rejected,
  the loop never exits.  If the input ends after the \<open>k\<close> rejected lines, the loop is
  left by the \<open>EOFError\<close> that \<^verbatim>\<open>input\<close> raises, after the same \<open>k\<close> messages.
\<close>

theorem retry_loop_exits_at_first_valid_input:
  "((\<forall>i<k. rejected to_int (inputs !! i)) \<and> inputs !! k = Some line \<and> to_int line = Some num
      \<longrightarrow> retry_loop to_int inputs [] = Some (Inr num, retries k @ [prompt]))
   \<and> ((\<forall>i. rejected to_int (inputs !! i)) \<longrightarrow> retry_loop to_int inputs [] = None)
   \<and> ((\<forall>i<k. rejected to_int (inputs !! i)) \<and> inputs !! k = None
      \<longrightarrow> retry_loop to_int inputs [] = Some (Inl EOFError, retries k @ [prompt]))"
  using retry_loop_break [of k to_int inputs line num] retry_loop_eof [of k to_int inputs]
    retry_loop_forever [of to_int inputs "[]"]
  by blast

theorem retry_loop_exits_at_first_valid_input_witness:
  "retry_loop py_int (typed [''abc'', '' 42 '']) [] =
     Some (Inr 42, [prompt, invalid_input, prompt])
   \<and> retry_loop py_int (sconst (Some ''abc'')) [] = None
   \<and> retry_loop py_int (typed [''abc'', ''4 2'']) [] =
       Some (Inl EOFError, [prompt, invalid_input, prompt, invalid_input, prompt])"
proof -
  have r1: "\<forall>i<1. rejected py_int (typed [''abc'', '' 42 ''] !! i)"
    by (simp add: typed_def rejected_def py_int_abc)
  have r2: "\<forall>i. rejected py_int (sconst (Some ''abc'') !! i)"
    by (simp add: rejected_def py_int_abc)
  have r3: "\<forall>i<2. rejected py_int (typed [''abc'', ''4 2''] !! i)"
    by (simp add: typed_def rejected_def py_int_abc py_int_4_2 less_Suc_eq numeral_2_eq_2)
  show ?thesis
    using retry_loop_exits_at_first_valid_input
        [of 1 py_int "typed [''abc'', '' 42 '']" "'' 42 ''" 42] r1
      retry_loop_exits_at_first_valid_input [of 0 py_int "sconst (Some ''abc'')"] r2
      retry_loop_exits_at_first_valid_input [of 2 py_int "typed [''abc'', ''4 2'']"] r3
    by (simp add: typed_def py_int_42 retries_def numeral_2_eq_2)
qed

text \<open>
  C5 as stated fails: the input that consists of the one line "abc" has no line that
  converts to an integer, and the loop exits on it: the second \<^verbatim>\<open>input\<close> raises
  \<open>EOFError\<close>.
\<close>

theorem retry_loop_exits_at_end_of_input:
  "py_int ''abc'' = None
   \<and> retry_loop py_int (typed [''abc'']) [] =
       Some (Inl EOFError, [prompt, invalid_input, prompt])"
proof -
  have "retry_loop py_int (typed [''abc'']) [] =
        retry_loop py_int (sconst None) [prompt, invalid_input]"
    by (subst retry_loop.simps) (simp add: typed_def py_int_abc)
  also have "\<dots> = Some (Inl EOFError, [prompt, invalid_input, prompt])"
    by (subst retry_loop.simps) simp
  finally show ?thesis by (simp add: py_int_abc)
qed

text \<open>
  C6.  For every integer \<open>x\<close>, \<open>check_value\<close> raises \<open>MyCustomError\<close> with the
  message "Negative value not allowed!" exactly when \<open>x < 0\<close>, and returns normally
  (the unit value, there is no state to change) exactly when \<open>x \<ge> 0\<close>.
\<close>

theorem check_value_raises_iff_negative:
  "(check_value x = Inl (MyCustomError ''Negative value not allowed!'') \<longleftrightarrow> x < 0)
   \<and> (check_value x = Inr () \<longleftrightarrow> 0 \<le> x)"
  by (simp add: check_value_def)

text \<open>
  C7, as amended.  The \<open>Item\<close> record has the fields name, description, price and tax;
  the \<open>Token\<close> record has the fields access_token and token_type, both strings; the
  user records of every mock user database have the fields username and password, and
  only those of the role example have a role as well (the record of the OAuth2 example
  has a full_name instead).
\<close>

theorem placeholder_data_model_shapes:
  "map field_name Item = [''name'', ''description'', ''price'', ''tax'']
   \<and> map field_name Token = [''access_token'', ''token_type'']
   \<and> map annotation Token = [Str, Str]
   \<and> user_fields fake_users_db_basic = [[''username'', ''password'']]
   \<and> user_fields fake_users_db_oauth2 = [[''username'', ''password'', ''full_name'']]
   \<and> user_fields fake_users_db_jwt = [[''username'', ''password'']]
   \<and> user_fields fake_users_db_roles =
       [[''username'', ''password'', ''role''], [''username'', ''password'', ''role'']]"
  by (simp add: Item_def Token_def user_fields_def keys_def fake_users_db_basic_def
      fake_users_db_oauth2_def fake_users_db_jwt_def fake_users_db_roles_def)

text \<open>
  C7 as stated fails: the user record of the mock database of lines 338-343 has no role.
\<close>

theorem fake_users_db_basic_has_no_role:
  "map_of fake_users_db_basic ''admin'' =
     Some [(''username'', ''admin''), (''password'', ''secret'')]
   \<and> ''role'' \<notin> set (concat (user_fields fake_users_db_basic))"
  by (simp add: user_fields_def keys_def fake_users_db_basic_def)

text \<open>
  C8.  In every execution of \<open>get_db\<close> in which the session was obtained, whether the
  body that uses the session returns or raises, \<^verbatim>\<open>db.close()\<close> is called exactly once,
  on the session as the body left it, before the execution ends: the session ends in the
  state in which that one call leaves it, and the outcome is the body's, value or
  exception, unless \<^verbatim>\<open>db.close\<close> itself raised.  On a session that counts the calls of
  its \<^verbatim>\<open>close\<close>, the count after the execution is one more than after the body.
\<close>

theorem get_db_closes_exactly_once:
  "use_get_db (Inr db) close body =
     (case close (snd (body db)) of
        (Some e, db') \<Rightarrow> (Inl e, Some db')
      | (None, db') \<Rightarrow> (fst (body db), Some db'))
   \<and> snd (use_get_db (Inr calls) counting_close counting_body) =
       Some (Suc (snd (counting_body calls)))"
  by (simp add: use_get_db_def get_db_start_def get_db_next_def get_db_throw_def
      counting_close_def split: sum.splits option.splits prod.splits)

text \<open>
  C9 fails in the code.  For every token, every jwt module and every clock,
  \<open>read_protected\<close> returns the greeting of a "sub" claim that is present and not
  \<^verbatim>\<open>None\<close>, and raises \<open>HTTPException\<close> 401 "Token has expired" when \<^verbatim>\<open>jwt.decode\<close>
  raised \<open>ExpiredSignatureError\<close>; but on every other failure (another exception of the
  module, or a payload without "sub") it raises \<open>AttributeError\<close> and not the 401
  "Invalid token" of the claim.  The token "abc" is one: decoding it raises
  \<open>DecodeError\<close>.
\<close>

theorem read_protected_invalid_token_raises_attribute_error:
  "read_protected jwt now token =
     (case decode jwt token SECRET_KEY [''HS256''] now of
        Inl ExpiredSignatureError \<Rightarrow> Inl (HTTPException 401 ''Token has expired'')
      | Inl _ \<Rightarrow> Inl (AttributeError ''JWTError'')
      | Inr payload \<Rightarrow>
          (case map_of payload ''sub'' of
             None \<Rightarrow> Inl (AttributeError ''JWTError'')
           | Some JNull \<Rightarrow> Inl (AttributeError ''JWTError'')
           | Some username \<Rightarrow>
               Inr [(''message'', ''Hello '' @ py_str username @ '', you're authenticated!'')]))
   \<and> decode plain_jwt ''abc'' SECRET_KEY [''HS256''] now = Inl DecodeError
   \<and> read_protected plain_jwt now ''abc'' = Inl (AttributeError ''JWTError'')"
  by (auto simp add: read_protected_def read_protected_try_def greeting_def plain_jwt_def
      plain_decode_abc
      split: sum.splits jwt_exception.splits option.splits json_value.splits)

text \<open>
  C10.  \<open>create_jwt_token\<close> does not change the caller's dict: for every store, every
  dict \<open>data\<close> of the store and every \<open>expires_delta\<close>, after the call all the dicts
  that existed before are as they were, \<open>data\<close> among them, which has an "exp" key
  after the call only if it had one before; the key is written to the copy, a new dict.
  The token is the one of the function on values.
\<close>

theorem create_jwt_token_leaves_data_unchanged:
  "data < length store \<Longrightarrow>
     take (length store) (snd (create_jwt_token_store jwt utcnow store data expires_delta)) = store
     \<and> snd (create_jwt_token_store jwt utcnow store data expires_delta) ! data = store ! data
     \<and> (''exp'' \<in> set (keys (snd (create_jwt_token_store jwt utcnow store data expires_delta) ! data))
        \<longleftrightarrow> ''exp'' \<in> set (keys (store ! data)))
     \<and> snd (create_jwt_token_store jwt utcnow store data expires_delta) ! length store =
         AList.update ''exp'' (PyDatetime (utcnow + expires_delta)) (store ! data)
     \<and> fst (create_jwt_token_store jwt utcnow store data expires_delta) =
         create_jwt_token jwt utcnow (store ! data) expires_delta"
  by (simp add: create_jwt_token_store_def create_jwt_token_def Let_def nth_append)

theorem create_jwt_token_leaves_data_unchanged_witness:
  "snd (create_jwt_token_store plain_jwt 0 [[(''sub'', PyStr ''admin'')]] 0 5) =
     [[(''sub'', PyStr ''admin'')], [(''sub'', PyStr ''admin''), (''exp'', PyDatetime 5)]]
   \<and> ''exp'' \<notin> set (keys (snd (create_jwt_token_store plain_jwt 0
                                  [[(''sub'', PyStr ''admin'')]] 0 5) ! 0))"
proof -
  have len: "(0::nat) < length [[(''sub'', PyStr ''admin'')]]" by simp
  have new: "snd (create_jwt_token_store plain_jwt 0 [[(''sub'', PyStr ''admin'')]] 0 5) =
      [[(''sub'', PyStr ''admin'')], [(''sub'', PyStr ''admin''), (''exp'', PyDatetime 5)]]"
    by (simp add: create_jwt_token_store_def)
  show ?thesis
    using create_jwt_token_leaves_data_unchanged
        [OF len, of plain_jwt 0 5]
    by (simp add: new keys_def)
qed

end
